theory Spec2Isabelle
  imports Main
begin

section \<open>Command names (src/constants/commands.ts)\<close>

definition EXECUTE_WORKSPACE_COMMAND :: string where
  "EXECUTE_WORKSPACE_COMMAND = ''java.execute.workspaceCommand''"

definition SET_CHECKSTYLE_CONFIGURATION :: string where
  "SET_CHECKSTYLE_CONFIGURATION = ''java.checkstyle.setConfiguration''"

definition CHECK_CODE_WITH_CHECKSTYLE :: string where
  "CHECK_CODE_WITH_CHECKSTYLE = ''java.checkstyle.checkCode''"

definition FIX_CHECKSTYLE_VIOLATION :: string where
  "FIX_CHECKSTYLE_VIOLATION = ''java.checkstyle.quickFix''"

definition OPEN_OUTPUT_CHANNEL :: string where
  "OPEN_OUTPUT_CHANNEL = ''java.checkstyle.open.output.channel''"

definition VSCODE_OPEN :: string where
  "VSCODE_OPEN = ''vscode.open''"

section \<open>Data of the diagnostic manager (CheckstyleDiagnosticManager)\<close>

text \<open>
  What the manager reads of a \<open>vscode.TextDocument\<close>: \<open>languageId\<close>, \<open>uri.scheme\<close>,
  \<open>uri.fsPath\<close> and the document's characters.
\<close>

record TextDocument =
  languageId :: string
  scheme :: string
  fsPath :: string
  getText :: string

text \<open>
  One entry of \<open>TextDocumentChangeEvent.contentChanges\<close>: the characters from
  \<open>rangeOffset\<close>, \<open>rangeLength\<close> of them, are replaced by the new characters.
\<close>

datatype ContentChange = ContentChange nat nat string

fun apply_change :: "string \<Rightarrow> ContentChange \<Rightarrow> string" where
  "apply_change doc (ContentChange rangeOffset rangeLength new) =
     take rangeOffset doc @ new @ drop (rangeOffset + rangeLength) doc"

definition apply_changes :: "ContentChange list \<Rightarrow> string \<Rightarrow> string" where
  "apply_changes changes doc = foldl apply_change doc changes"

text \<open>
  A \<open>SyncedFile\<close> object. The pending set is a JavaScript \<open>Set\<close> of object
  references, so two objects made for the same path are two elements: \<open>sf_id\<close> is the
  identity of the object, \<open>realUri\<close> and \<open>syncUri\<close> are its two read-only properties.
\<close>

record SyncedFile =
  sf_id :: nat
  realUri :: string
  syncUri :: string

text \<open>
  A finding returned by the checker (\<open>ICheckstyleResult\<close> of \<open>models\<close>, a file that
  is not part of the sources). The manager passes findings on and never reads them.
\<close>

record ICheckstyleResult =
  line :: nat
  column :: nat
  message :: string
  severity :: string
  sourceName :: string

text \<open>
  How the awaited \<open>executeJavaLanguageServerCommand\<close> settles: with a list of
  results, with \<open>undefined\<close>, or by throwing.
\<close>

datatype reply = Results "ICheckstyleResult list" | NoResult | Throws string

text \<open>The four arguments of one remote call (lines 97-98).\<close>

record CheckRequest =
  req_command :: string
  req_uri :: string
  req_configurationPath :: string
  req_properties :: "(string \<times> string) list"

text \<open>
  The collaborators imported from files that are not part of the sources, taken as
  parameters: the two setting resolvers of \<open>utils/settingUtils\<close>, the synchronizer's
  choice of a mirrored location for a real path, and what \<open>addDiagnostics\<close> of the
  diagnostic collector does with an entry that is already stored for the key.
\<close>

record env =
  getCheckstyleConfigurationPath :: "string \<Rightarrow> string"
  getCheckstyleProperties :: "string \<Rightarrow> (string \<times> string) list"
  mirrorUri :: "string \<Rightarrow> string"
  mergeExisting :: "ICheckstyleResult list \<Rightarrow> ICheckstyleResult list \<Rightarrow> ICheckstyleResult list"

text \<open>
  A mirrored location of the synchronizer: its content, and the changes buffered for it
  since the last flush.
\<close>

record Mirror =
  content :: string
  bufferedChanges :: "ContentChange list"

text \<open>
  \<open>sendPendingDiagnostics\<close> is an async function: a call of it runs until an
  \<open>await\<close>, and other handlers run before it is resumed. A call in progress is at
  line 87 (awaiting the flush), or at line 97 (awaiting the check of a file, with the
  position of the set's iterator), or has returned.
\<close>

datatype drain = AwaitFlush | AwaitCheck nat SyncedFile | Returned

text \<open>
  The fields of the manager and what it acts on. Of the class: \<open>listening\<close> (the
  listeners are registered and not disposed), \<open>pendingDiagnostics\<close>, \<open>syncedFiles\<close>,
  and \<open>debounceTimer\<close>, the time at which \<open>diagnosticDelayTrigger\<close> is due
  (\<open>None\<close>: not armed); the field \<open>context\<close> is only handed to the synchronizer. Of
  the synchronizer: \<open>mirrors\<close>, by mirrored identity, and \<open>synchronizerDisposed\<close>. Of
  the editor: \<open>documents\<close>, the content of the open documents by path. Of the run time:
  \<open>clock\<close> in milliseconds, \<open>nextId\<close> for the next object, and \<open>drains\<close>, the
  calls of \<open>sendPendingDiagnostics\<close> made so far. What the manager does to the outside
  is recorded: the lines appended to \<open>checkstyleChannel\<close>, the remote check calls sent,
  the store of \<open>checkstyleDiagnosticCollector\<close>, the number of calls of
  \<open>checkstyleStatusBar.showStatus\<close>, and the errors passed to \<open>handleErrors\<close>.
\<close>

record state =
  listening :: bool
  pendingDiagnostics :: "SyncedFile option list"
  syncedFiles :: "string \<rightharpoonup> SyncedFile"
  debounceTimer :: "nat option"
  clock :: nat
  nextId :: nat
  mirrors :: "string \<rightharpoonup> Mirror"
  synchronizerDisposed :: bool
  documents :: "string \<rightharpoonup> string"
  drains :: "drain list"
  channel :: "string list"
  requests :: "CheckRequest list"
  collector :: "string \<rightharpoonup> ICheckstyleResult list"
  statusShown :: nat
  handledErrors :: "string list"

section \<open>The JavaScript Set behind pendingDiagnostics\<close>

text \<open>
  ECMAScript keeps the elements of a Set in a list in insertion order. \<open>add\<close> appends
  an element that is not there, \<open>clear\<close> replaces every element by the empty marker
  (\<open>None\<close>), and an iterator is an index into the list that skips the empty markers: it
  sees the elements added while it is suspended.
\<close>

definition set_add :: "'a \<Rightarrow> 'a option list \<Rightarrow> 'a option list" where
  "set_add x xs = (if Some x \<in> set xs then xs else xs @ [Some x])"

definition set_clear :: "'a option list \<Rightarrow> 'a option list" where
  "set_clear xs = map (\<lambda>_. None) xs"

primrec next_from :: "'a option list \<Rightarrow> nat \<Rightarrow> ('a \<times> nat) option" where
  "next_from [] i = None"
| "next_from (x # xs) i =
     (case x of Some v \<Rightarrow> Some (v, Suc i) | None \<Rightarrow> next_from xs (Suc i))"

definition iter_next :: "'a option list \<Rightarrow> nat \<Rightarrow> ('a \<times> nat) option" where
  "iter_next xs i = next_from (drop i xs) i"

definition set_values :: "'a option list \<Rightarrow> 'a list" where
  "set_values xs = concat (map (\<lambda>x. case x of None \<Rightarrow> [] | Some v \<Rightarrow> [v]) xs)"

section \<open>SyncedFile and FileSynchronizer (features/FileSynchronizer)\<close>

text \<open>
  Modelled from the spec: the file \<open>features/FileSynchronizer\<close> is not part of the
  sources. Sections 3, 4.1 and 4.2 of the specification: \<open>open\<close> establishes the
  mirrored location with the document's full content; \<open>onContentChanged\<close> appends the
  change to the buffered changes without applying it; \<open>close\<close> releases the mirrored
  location; \<open>flush\<close> applies the buffered changes of every tracked file to its mirrored
  location and empties the buffer; \<open>dispose\<close> releases every mirrored location and
  accepts no further registration.
\<close>

definition SyncedFile_open :: "SyncedFile \<Rightarrow> string \<Rightarrow> state \<Rightarrow> state" where
  "SyncedFile_open file doc s =
     (if synchronizerDisposed s then s
      else s\<lparr>mirrors := (mirrors s)(syncUri file \<mapsto> \<lparr>content = doc, bufferedChanges = []\<rparr>)\<rparr>)"

definition SyncedFile_onContentChanged :: "SyncedFile \<Rightarrow> ContentChange list \<Rightarrow> state \<Rightarrow> state" where
  "SyncedFile_onContentChanged file changes s =
     (case mirrors s (syncUri file) of
        None \<Rightarrow> s
      | Some m \<Rightarrow>
          s\<lparr>mirrors := (mirrors s)(syncUri file \<mapsto> m\<lparr>bufferedChanges := bufferedChanges m @ changes\<rparr>)\<rparr>)"

definition SyncedFile_close :: "SyncedFile \<Rightarrow> state \<Rightarrow> state" where
  "SyncedFile_close file s = s\<lparr>mirrors := (mirrors s)(syncUri file := None)\<rparr>"

definition flush_mirror :: "Mirror \<Rightarrow> Mirror" where
  "flush_mirror m =
     \<lparr>content = apply_changes (bufferedChanges m) (content m), bufferedChanges = []\<rparr>"

definition FileSynchronizer_flush :: "state \<Rightarrow> state" where
  "FileSynchronizer_flush s = s\<lparr>mirrors := map_option flush_mirror \<circ> mirrors s\<rparr>"

definition FileSynchronizer_dispose :: "state \<Rightarrow> state" where
  "FileSynchronizer_dispose s = s\<lparr>mirrors := Map.empty, synchronizerDisposed := True\<rparr>"

section \<open>The diagnostic collector (checkstyleDiagnosticCollector)\<close>

text \<open>
  Modelled from the spec: the file \<open>checkstyleDiagnosticCollector\<close> is not part of the
  sources. Section 3 of the specification: the diagnostics store is a mapping from
  document identity to its current findings. \<open>delete\<close> removes the entry of a key.
  \<open>addDiagnostics\<close> inserts the findings under a key that has no entry; what it does
  with an entry that is already there is the parameter \<open>mergeExisting\<close>.
\<close>

definition collector_delete ::
  "string \<Rightarrow> (string \<rightharpoonup> ICheckstyleResult list) \<Rightarrow> (string \<rightharpoonup> ICheckstyleResult list)" where
  "collector_delete uri store = store(uri := None)"

definition addDiagnostics ::
  "env \<Rightarrow> string \<Rightarrow> ICheckstyleResult list \<Rightarrow> (string \<rightharpoonup> ICheckstyleResult list)
     \<Rightarrow> (string \<rightharpoonup> ICheckstyleResult list)" where
  "addDiagnostics e uri results store =
     store(uri \<mapsto> (case store uri of None \<Rightarrow> results | Some old \<Rightarrow> mergeExisting e old results))"

text \<open>Lines 103-104 of \<open>sendPendingDiagnostics\<close>: delete, then add.\<close>

definition apply_results ::
  "env \<Rightarrow> string \<Rightarrow> ICheckstyleResult list \<Rightarrow> (string \<rightharpoonup> ICheckstyleResult list)
     \<Rightarrow> (string \<rightharpoonup> ICheckstyleResult list)" where
  "apply_results e uri results store = addDiagnostics e uri results (collector_delete uri store)"

section \<open>The handlers of CheckstyleDiagnosticManager\<close>

text \<open>
  Line 31: \<open>diagnosticDelayTrigger\<close> is lodash's \<open>debounce\<close> of
  \<open>sendPendingDiagnostics\<close> with a wait of 200 milliseconds and the default options
  (trailing edge only). lodash is a library, not code of this repository: every call of
  the debounced function restarts the wait, and the function runs once 200 milliseconds
  have passed since the last call. Time is a counter of milliseconds.
\<close>

definition DEBOUNCE_WAIT :: nat where
  "DEBOUNCE_WAIT = 200"

definition diagnosticDelayTrigger :: "state \<Rightarrow> state" where
  "diagnosticDelayTrigger s = s\<lparr>debounceTimer := Some (clock s + DEBOUNCE_WAIT)\<rparr>"

text \<open>Lines 25-31 of \<open>initialize\<close>, before any document is seen.\<close>

definition initial_state :: state where
  "initial_state =
     \<lparr>listening = True, pendingDiagnostics = [], syncedFiles = Map.empty,
      debounceTimer = None, clock = 0, nextId = 0, mirrors = Map.empty,
      synchronizerDisposed = False, documents = Map.empty, drains = [], channel = [],
      requests = [], collector = Map.empty, statusShown = 0, handledErrors = []\<rparr>"

text \<open>Lines 81-84.\<close>

definition requestDiagnostic :: "SyncedFile \<Rightarrow> state \<Rightarrow> state" where
  "requestDiagnostic file s =
     diagnosticDelayTrigger (s\<lparr>pendingDiagnostics := set_add file (pendingDiagnostics s)\<rparr>)"

text \<open>Lines 45-59.\<close>

definition onDidOpenTextDocument :: "env \<Rightarrow> TextDocument \<Rightarrow> state \<Rightarrow> state" where
  "onDidOpenTextDocument e document s =
     (if \<not> (languageId document = ''java'' \<and> scheme document = ''file'') then s
      else
        let filePath = fsPath document in
        if syncedFiles s filePath \<noteq> None then s
        else
          let syncedFile = \<lparr>sf_id = nextId s, realUri = filePath, syncUri = mirrorUri e filePath\<rparr>;
              s1 = s\<lparr>syncedFiles := (syncedFiles s)(filePath \<mapsto> syncedFile), nextId := Suc (nextId s)\<rparr>;
              s2 = SyncedFile_open syncedFile (getText document) s1
          in requestDiagnostic syncedFile s2)"

text \<open>Lines 61-69.\<close>

definition onDidChangeTextDocument :: "string \<Rightarrow> ContentChange list \<Rightarrow> state \<Rightarrow> state" where
  "onDidChangeTextDocument filePath contentChanges s =
     (case syncedFiles s filePath of
        None \<Rightarrow> s
      | Some syncedFile \<Rightarrow>
          requestDiagnostic syncedFile (SyncedFile_onContentChanged syncedFile contentChanges s))"

text \<open>Lines 71-79.\<close>

definition onDidCloseTextDocument :: "string \<Rightarrow> state \<Rightarrow> state" where
  "onDidCloseTextDocument filePath s =
     (case syncedFiles s filePath of
        None \<Rightarrow> s
      | Some syncedFile \<Rightarrow>
          SyncedFile_close syncedFile (s\<lparr>syncedFiles := (syncedFiles s)(filePath := None)\<rparr>))"

text \<open>
  Lines 38-43. Disposing the listeners ends the delivery of the editor's events to the
  three handlers.
\<close>

definition dispose :: "state \<Rightarrow> state" where
  "dispose s = (FileSynchronizer_dispose s)\<lparr>listening := False\<rparr>"

section \<open>sendPendingDiagnostics, one suspension at a time\<close>

text \<open>
  Lines 86-87: the call made by the debounce timer starts the flush and suspends.
\<close>

definition sendPendingDiagnostics :: "state \<Rightarrow> state" where
  "sendPendingDiagnostics s = (FileSynchronizer_flush s)\<lparr>drains := drains s @ [AwaitFlush]\<rparr>"

text \<open>
  Lines 89-98 and 110: the call \<open>k\<close> asks the iterator, at position \<open>i\<close>, for the next
  file. With no file left the set is cleared and the call returns (line 110). With an
  empty configuration path it logs and returns (lines 91-94). Otherwise it sends the
  check request and suspends (lines 97-98).
\<close>

definition drain_loop :: "env \<Rightarrow> nat \<Rightarrow> nat \<Rightarrow> state \<Rightarrow> state" where
  "drain_loop e k i s =
     (case iter_next (pendingDiagnostics s) i of
        None \<Rightarrow>
          s\<lparr>pendingDiagnostics := set_clear (pendingDiagnostics s),
            drains := (drains s)[k := Returned]\<rparr>
      | Some (file, j) \<Rightarrow>
          let configurationPath = getCheckstyleConfigurationPath e (realUri file) in
          if configurationPath = [] then
            s\<lparr>channel := channel s @ [''Checkstyle configuration file not set yet, skip the check.''],
              drains := (drains s)[k := Returned]\<rparr>
          else
            s\<lparr>requests := requests s @
                 [\<lparr>req_command = CHECK_CODE_WITH_CHECKSTYLE, req_uri = syncUri file,
                   req_configurationPath = configurationPath,
                   req_properties = getCheckstyleProperties e (realUri file)\<rparr>],
              drains := (drains s)[k := AwaitCheck j file]\<rparr>)"

text \<open>Line 87 resumes: the loop starts with a fresh iterator.\<close>

definition flush_resolved :: "env \<Rightarrow> nat \<Rightarrow> state \<Rightarrow> state" where
  "flush_resolved e k s =
     (if k < length (drains s) \<and> drains s ! k = AwaitFlush then drain_loop e k 0 s else s)"

text \<open>
  Lines 99-108: the awaited check of the call \<open>k\<close> settles. \<open>undefined\<close> logs and
  returns (lines 99-102); results are stored and the status shown (lines 103-105), a
  throw goes to \<open>handleErrors\<close> (lines 106-108), and both go on with the loop.
\<close>

definition check_resolved :: "env \<Rightarrow> nat \<Rightarrow> reply \<Rightarrow> state \<Rightarrow> state" where
  "check_resolved e k r s =
     (if k < length (drains s) then
        (case drains s ! k of
           AwaitCheck i file \<Rightarrow>
             (case r of
                NoResult \<Rightarrow>
                  s\<lparr>channel := channel s @ [''Unable to get results from Language Server.''],
                    drains := (drains s)[k := Returned]\<rparr>
              | Results results \<Rightarrow>
                  drain_loop e k i
                    (s\<lparr>collector := apply_results e (realUri file) results (collector s),
                       statusShown := Suc (statusShown s)\<rparr>)
              | Throws err \<Rightarrow>
                  drain_loop e k i (s\<lparr>handledErrors := handledErrors s @ [err]\<rparr>))
         | _ \<Rightarrow> s)
      else s)"

section \<open>The event loop\<close>

text \<open>
  What happens to the manager, one at a time: the editor opens, changes or closes a
  document, time passes, an awaited promise of a call in progress settles, or the
  extension is disposed. The editor's own documents are kept in \<open>documents\<close>; its
  events reach the handlers while the listeners are registered.
\<close>

datatype event =
    DidOpen TextDocument
  | DidChange string "ContentChange list"
  | DidClose string
  | Advance nat
  | FlushResolved nat
  | CheckResolved nat reply
  | Dispose

definition advance :: "nat \<Rightarrow> state \<Rightarrow> state" where
  "advance n s =
     (let s1 = s\<lparr>clock := clock s + n\<rparr> in
      case debounceTimer s of
        None \<Rightarrow> s1
      | Some deadline \<Rightarrow>
          if deadline \<le> clock s1 then sendPendingDiagnostics (s1\<lparr>debounceTimer := None\<rparr>)
          else s1)"

fun step :: "env \<Rightarrow> event \<Rightarrow> state \<Rightarrow> state" where
  "step e (DidOpen document) s =
     (let s1 = s\<lparr>documents := (documents s)(fsPath document \<mapsto> getText document)\<rparr> in
      if listening s then onDidOpenTextDocument e document s1 else s1)"
| "step e (DidChange filePath contentChanges) s =
     (case documents s filePath of
        None \<Rightarrow> s
      | Some doc \<Rightarrow>
          let s1 = s\<lparr>documents := (documents s)(filePath \<mapsto> apply_changes contentChanges doc)\<rparr> in
          if listening s then onDidChangeTextDocument filePath contentChanges s1 else s1)"
| "step e (DidClose filePath) s =
     (let s1 = s\<lparr>documents := (documents s)(filePath := None)\<rparr> in
      if listening s then onDidCloseTextDocument filePath s1 else s1)"
| "step e (Advance n) s = advance n s"
| "step e (FlushResolved k) s = flush_resolved e k s"
| "step e (CheckResolved k r) s = check_resolved e k r s"
| "step e Dispose s = dispose s"

primrec run :: "env \<Rightarrow> event list \<Rightarrow> state \<Rightarrow> state" where
  "run e [] s = s"
| "run e (ev # evs) s = run e evs (step e ev s)"

text \<open>Lines 25-36: \<open>initialize\<close> with the documents that are already open.\<close>

definition initialize :: "env \<Rightarrow> TextDocument list \<Rightarrow> state" where
  "initialize e textDocuments =
     foldl (\<lambda>s document.
              onDidOpenTextDocument e document
                (s\<lparr>documents := (documents s)(fsPath document \<mapsto> getText document)\<rparr>))
           initial_state textDocuments"

section \<open>Notions used to state the properties\<close>

text \<open>The request that lines 97-98 send for a file.\<close>

definition check_request :: "env \<Rightarrow> SyncedFile \<Rightarrow> CheckRequest" where
  "check_request e file =
     \<lparr>req_command = CHECK_CODE_WITH_CHECKSTYLE, req_uri = syncUri file,
      req_configurationPath = getCheckstyleConfigurationPath e (realUri file),
      req_properties = getCheckstyleProperties e (realUri file)\<rparr>"

text \<open>
  What the settled check of a file leaves behind before the loop goes on: the store
  and the status bar for results, the error handler for a throw.
\<close>

definition settle :: "env \<Rightarrow> SyncedFile \<Rightarrow> reply \<Rightarrow> state \<Rightarrow> state" where
  "settle e file r s =
     (case r of
        Results results \<Rightarrow>
          s\<lparr>collector := apply_results e (realUri file) results (collector s),
            statusShown := Suc (statusShown s)\<rparr>
      | Throws err \<Rightarrow> s\<lparr>handledErrors := handledErrors s @ [err]\<rparr>
      | NoResult \<Rightarrow> s)"

text \<open>The store after the reply to the check of one file.\<close>

definition reconcile ::
  "env \<Rightarrow> (string \<rightharpoonup> ICheckstyleResult list) \<Rightarrow> SyncedFile \<times> reply
     \<Rightarrow> (string \<rightharpoonup> ICheckstyleResult list)" where
  "reconcile e store fr =
     (case snd fr of
        Results results \<Rightarrow> apply_results e (realUri (fst fr)) results store
      | _ \<Rightarrow> store)"

text \<open>The errors thrown among a list of replies, and the number of replies with results.\<close>

fun thrown :: "reply list \<Rightarrow> string list" where
  "thrown [] = []"
| "thrown (Throws err # rs) = err # thrown rs"
| "thrown (_ # rs) = thrown rs"

fun answered :: "reply list \<Rightarrow> nat" where
  "answered [] = 0"
| "answered (Results _ # rs) = Suc (answered rs)"
| "answered (_ # rs) = answered rs"



text \<open>The editor's three events, as opposed to the passing of time and the promises.\<close>

fun editor_event :: "event \<Rightarrow> bool" where
  "editor_event (DidOpen _) = True"
| "editor_event (DidChange _ _) = True"
| "editor_event (DidClose _) = True"
| "editor_event _ = False"

subsection \<open>A small workspace\<close>

definition ex_env :: env where
  "ex_env =
     \<lparr>getCheckstyleConfigurationPath = (\<lambda>uri. if uri = ''/B.java'' then [] else ''checkstyle.xml''),
      getCheckstyleProperties = (\<lambda>uri. [(''basedir'', ''/'')]),
      mirrorUri = (\<lambda>uri. ''/tmp/sync'' @ uri),
      mergeExisting = (\<lambda>old new. old @ new)\<rparr>"

definition doc_A :: TextDocument where
  "doc_A = \<lparr>languageId = ''java'', scheme = ''file'', fsPath = ''/A.java'', getText = ''class A''\<rparr>"

definition doc_B :: TextDocument where
  "doc_B = \<lparr>languageId = ''java'', scheme = ''file'', fsPath = ''/B.java'', getText = ''class B''\<rparr>"

definition doc_C :: TextDocument where
  "doc_C = \<lparr>languageId = ''java'', scheme = ''file'', fsPath = ''/C.java'', getText = ''class C''\<rparr>"

definition file_A :: SyncedFile where
  "file_A = \<lparr>sf_id = 0, realUri = ''/A.java'', syncUri = ''/tmp/sync/A.java''\<rparr>"

definition file_B :: SyncedFile where
  "file_B = \<lparr>sf_id = 0, realUri = ''/B.java'', syncUri = ''/tmp/sync/B.java''\<rparr>"

definition file_C :: SyncedFile where
  "file_C = \<lparr>sf_id = 1, realUri = ''/C.java'', syncUri = ''/tmp/sync/C.java''\<rparr>"

definition finding_1 :: ICheckstyleResult where
  "finding_1 = \<lparr>line = 1, column = 7, message = ''Missing a Javadoc comment.'',
                 severity = ''warning'', sourceName = ''JavadocType''\<rparr>"

definition finding_2 :: ICheckstyleResult where
  "finding_2 = \<lparr>line = 3, column = 1, message = ''File does not end with a newline.'',
                 severity = ''error'', sourceName = ''NewlineAtEndOfFile''\<rparr>"

section \<open>Evaluation and basic facts\<close>

lemmas model_defs =
  onDidOpenTextDocument_def onDidChangeTextDocument_def onDidCloseTextDocument_def
  requestDiagnostic_def diagnosticDelayTrigger_def DEBOUNCE_WAIT_def dispose_def
  SyncedFile_open_def SyncedFile_onContentChanged_def SyncedFile_close_def
  FileSynchronizer_flush_def FileSynchronizer_dispose_def flush_mirror_def apply_changes_def
  sendPendingDiagnostics_def drain_loop_def flush_resolved_def check_resolved_def advance_def
  set_add_def set_clear_def iter_next_def apply_results_def addDiagnostics_def
  collector_delete_def check_request_def reconcile_def CHECK_CODE_WITH_CHECKSTYLE_def
  initial_state_def Let_def

lemmas ex_defs =
  ex_env_def doc_A_def doc_B_def doc_C_def file_A_def file_B_def file_C_def
  finding_1_def finding_2_def

lemma run_append: "run e (xs @ ys) s = run e ys (run e xs s)"
  by (induction xs arbitrary: s) simp_all

lemma set_values_simps [simp]:
  "set_values [] = []"
  "set_values (None # xs) = set_values xs"
  "set_values (Some v # xs) = v # set_values xs"
  by (simp_all add: set_values_def)

lemma set_values_append [simp]: "set_values (xs @ ys) = set_values xs @ set_values ys"
  by (simp add: set_values_def)

lemma set_values_mem: "(v \<in> set (set_values xs)) = (Some v \<in> set xs)"
proof (induction xs)
  case Nil
  show ?case by simp
next
  case (Cons x xs)
  then show ?case by (cases x) auto
qed


lemma set_values_clear [simp]: "set_values (set_clear xs) = []"
  by (induction xs) (simp_all add: set_clear_def)

subsection \<open>The iterator\<close>

lemma next_from_None: "(next_from xs i = None) = (set_values xs = [])"
  by (induction xs arbitrary: i) (auto split: option.splits)

lemma next_from_Some:
  "next_from xs i = Some (v, j) \<Longrightarrow>
     i < j \<and> j \<le> i + length xs \<and> set_values xs = v # set_values (drop (j - i) xs)"
proof (induction xs arbitrary: i)
  case Nil
  then show ?case by simp
next
  case (Cons x xs)
  show ?case
  proof (cases x)
    case None
    with Cons.prems have "next_from xs (Suc i) = Some (v, j)" by simp
    from Cons.IH [OF this] have "Suc i < j" "j \<le> Suc i + length xs"
      "set_values xs = v # set_values (drop (j - Suc i) xs)" by simp_all
    moreover from \<open>Suc i < j\<close> have "j - i = Suc (j - Suc i)" by arith
    ultimately show ?thesis using None by simp
  next
    case (Some w)
    with Cons.prems show ?thesis by auto
  qed
qed

lemma iter_next_None: "(iter_next xs i = None) = (set_values (drop i xs) = [])"
  by (simp add: iter_next_def next_from_None)

lemma iter_next_Some:
  assumes "iter_next xs i = Some (v, j)"
  shows "i < j \<and> set_values (drop i xs) = v # set_values (drop j xs)"
proof -
  from assms have n: "next_from (drop i xs) i = Some (v, j)" by (simp add: iter_next_def)
  from next_from_Some [OF n] have "i < j"
    and "set_values (drop i xs) = v # set_values (drop (j - i) (drop i xs))" by simp_all
  then show ?thesis by simp
qed

lemma iter_next_values:
  assumes "set_values (drop i xs) = v # vs"
  shows "\<exists>j. iter_next xs i = Some (v, j) \<and> set_values (drop j xs) = vs"
proof (cases "iter_next xs i")
  case None
  with assms show ?thesis by (simp add: iter_next_None)
next
  case (Some a)
  obtain w j where a: "a = (w, j)" by (cases a)
  from iter_next_Some [of xs i w j] Some a assms show ?thesis by simp
qed

subsection \<open>One round of the loop\<close>

lemma drain_loop_drains:
  "drain_loop e k j (s\<lparr>drains := (drains s)[k := d]\<rparr>) = drain_loop e k j s"
  by (simp add: drain_loop_def Let_def split: option.splits prod.splits)

lemma drain_loop_request:
  assumes "iter_next (pendingDiagnostics s) i = Some (file, j)"
    and "getCheckstyleConfigurationPath e (realUri file) \<noteq> []"
  shows "drain_loop e k i s =
           s\<lparr>requests := requests s @ [check_request e file],
             drains := (drains s)[k := AwaitCheck j file]\<rparr>"
  using assms by (simp add: drain_loop_def check_request_def)

lemma drain_loop_unconfigured:
  assumes "iter_next (pendingDiagnostics s) i = Some (file, j)"
    and "getCheckstyleConfigurationPath e (realUri file) = []"
  shows "drain_loop e k i s =
           s\<lparr>channel := channel s @ [''Checkstyle configuration file not set yet, skip the check.''],
             drains := (drains s)[k := Returned]\<rparr>"
  using assms by (simp add: drain_loop_def)

lemma drain_loop_done:
  assumes "iter_next (pendingDiagnostics s) i = None"
  shows "drain_loop e k i s =
           s\<lparr>pendingDiagnostics := set_clear (pendingDiagnostics s),
             drains := (drains s)[k := Returned]\<rparr>"
  using assms by (simp add: drain_loop_def)

lemma check_resolved_continue:
  assumes "k < length (drains s)" "drains s ! k = AwaitCheck i file" "r \<noteq> NoResult"
  shows "check_resolved e k r s = drain_loop e k i (settle e file r s)"
  using assms by (cases r) (simp_all add: check_resolved_def settle_def)

lemma settle_fields:
  "r \<noteq> NoResult \<Longrightarrow> settle e f r s =
     s\<lparr>collector := reconcile e (collector s) (f, r),
       statusShown := statusShown s + answered [r],
       handledErrors := handledErrors s @ thrown [r]\<rparr>"
  by (cases r) (simp_all add: settle_def reconcile_def)

subsection \<open>A call that is resumed until it returns\<close>

text \<open>
  A call that awaits the check of \<open>f\<close>, with the files \<open>fs\<close> next in the set, all of
  them configured, is resumed with a reply for \<open>f\<close> and one for each of \<open>fs\<close>, none of
  them \<open>undefined\<close>: every file of \<open>fs\<close> is requested, every reply is settled, and the
  loop goes on behind \<open>fs\<close>.
\<close>

lemma drain_run:
  assumes "k < length (drains s)" and "drains s ! k = AwaitCheck i f"
    and "set_values (drop i (pendingDiagnostics s)) = fs @ rest"
    and "\<forall>g\<in>set fs. getCheckstyleConfigurationPath e (realUri g) \<noteq> []"
    and "length rs = length fs" and "NoResult \<notin> set (r # rs)"
  shows "\<exists>j. set_values (drop j (pendingDiagnostics s)) = rest \<and>
     run e (map (CheckResolved k) (r # rs)) s =
       drain_loop e k j
         (s\<lparr>requests := requests s @ map (check_request e) fs,
            collector := foldl (reconcile e) (collector s) (zip (f # fs) (r # rs)),
            statusShown := statusShown s + answered (r # rs),
            handledErrors := handledErrors s @ thrown (r # rs)\<rparr>)"
  using assms
proof (induction fs arbitrary: s i f r rs)
  case Nil
  then have r: "r \<noteq> NoResult" and rs: "rs = []" by auto
  have "run e (map (CheckResolved k) (r # rs)) s = drain_loop e k i (settle e f r s)"
    using Nil.prems(1,2) r rs by (simp add: check_resolved_continue)
  then show ?case using Nil.prems(3) r rs by (auto simp: settle_fields)
next
  case (Cons g gs)
  from Cons.prems(5) obtain r' rs' where rs: "rs = r' # rs'" by (cases rs) auto
  from Cons.prems(6) have r: "r \<noteq> NoResult" by auto
  let ?m = "settle e f r s"
  have pm: "pendingDiagnostics ?m = pendingDiagnostics s"
    by (cases r) (simp_all add: settle_def)
  from Cons.prems(3) iter_next_values [of i "pendingDiagnostics s" g "gs @ rest"]
  obtain j' where j': "iter_next (pendingDiagnostics s) i = Some (g, j')"
    and rest': "set_values (drop j' (pendingDiagnostics s)) = gs @ rest" by auto
  define s1 where "s1 = check_resolved e k r s"
  have s1: "s1 = ?m\<lparr>requests := requests ?m @ [check_request e g],
                     drains := (drains ?m)[k := AwaitCheck j' g]\<rparr>"
    unfolding s1_def using Cons.prems(1,2,4) r j' pm
    by (simp add: check_resolved_continue drain_loop_request)
  have dm: "drains ?m = drains s" by (cases r) (simp_all add: settle_def)
  have p1: "pendingDiagnostics s1 = pendingDiagnostics s" by (simp add: s1 pm)
  have "\<exists>j. set_values (drop j (pendingDiagnostics s1)) = rest \<and>
     run e (map (CheckResolved k) (r' # rs')) s1 =
       drain_loop e k j
         (s1\<lparr>requests := requests s1 @ map (check_request e) gs,
            collector := foldl (reconcile e) (collector s1) (zip (g # gs) (r' # rs')),
            statusShown := statusShown s1 + answered (r' # rs'),
            handledErrors := handledErrors s1 @ thrown (r' # rs')\<rparr>)"
  proof (rule Cons.IH)
    show "k < length (drains s1)" using Cons.prems(1) by (simp add: s1 dm)
    show "drains s1 ! k = AwaitCheck j' g" using Cons.prems(1) by (simp add: s1 dm)
    show "set_values (drop j' (pendingDiagnostics s1)) = gs @ rest" by (simp add: p1 rest')
    show "\<forall>g\<in>set gs. getCheckstyleConfigurationPath e (realUri g) \<noteq> []"
      using Cons.prems(4) by simp
    show "length rs' = length gs" using Cons.prems(5) rs by simp
    show "NoResult \<notin> set (r' # rs')" using Cons.prems(6) rs by simp
  qed
  then obtain j where j: "set_values (drop j (pendingDiagnostics s)) = rest"
    and run1: "run e (map (CheckResolved k) (r' # rs')) s1 =
       drain_loop e k j
         (s1\<lparr>requests := requests s1 @ map (check_request e) gs,
            collector := foldl (reconcile e) (collector s1) (zip (g # gs) (r' # rs')),
            statusShown := statusShown s1 + answered (r' # rs'),
            handledErrors := handledErrors s1 @ thrown (r' # rs')\<rparr>)"
    by (auto simp: p1)
  let ?t = "s\<lparr>requests := requests s @ map (check_request e) (g # gs),
            collector := foldl (reconcile e) (collector s) (zip (f # g # gs) (r # rs)),
            statusShown := statusShown s + answered (r # rs),
            handledErrors := handledErrors s @ thrown (r # rs)\<rparr>"
  have eq: "s1\<lparr>requests := requests s1 @ map (check_request e) gs,
            collector := foldl (reconcile e) (collector s1) (zip (g # gs) (r' # rs')),
            statusShown := statusShown s1 + answered (r' # rs'),
            handledErrors := handledErrors s1 @ thrown (r' # rs')\<rparr>
        = ?t\<lparr>drains := (drains ?t)[k := AwaitCheck j' g]\<rparr>"
    using r by (cases r; cases r') (simp_all add: s1 rs settle_def reconcile_def)
  have "run e (map (CheckResolved k) (r # rs)) s = run e (map (CheckResolved k) (r' # rs')) s1"
    by (simp add: rs s1_def)
  also have "\<dots> = drain_loop e k j ?t"
    unfolding run1 eq by (rule drain_loop_drains)
  finally show ?case using j by blast
qed

text \<open>
  The same for a call that awaits its flush, with the files \<open>fs\<close> first in the set.
\<close>

lemma cycle_run:
  assumes "k < length (drains s)" and "drains s ! k = AwaitFlush"
    and "set_values (pendingDiagnostics s) = fs @ rest"
    and "\<forall>g\<in>set fs. getCheckstyleConfigurationPath e (realUri g) \<noteq> []"
    and "length rs = length fs" and "NoResult \<notin> set rs"
  shows "\<exists>j. set_values (drop j (pendingDiagnostics s)) = rest \<and>
     run e (FlushResolved k # map (CheckResolved k) rs) s =
       drain_loop e k j
         (s\<lparr>requests := requests s @ map (check_request e) fs,
            collector := foldl (reconcile e) (collector s) (zip fs rs),
            statusShown := statusShown s + answered rs,
            handledErrors := handledErrors s @ thrown rs\<rparr>)"
proof (cases fs)
  case Nil
  with assms(5) have rs: "rs = []" by simp
  have "run e (FlushResolved k # map (CheckResolved k) rs) s = drain_loop e k 0 s"
    using assms(1,2) rs by (simp add: flush_resolved_def)
  then show ?thesis using assms(3) Nil rs by (intro exI [of _ 0]) simp
next
  case (Cons f gs)
  with assms(5) obtain r rs' where rs: "rs = r # rs'" by (cases rs) auto
  from assms(3) Cons iter_next_values [of 0 "pendingDiagnostics s" f "gs @ rest"]
  obtain j' where j': "iter_next (pendingDiagnostics s) 0 = Some (f, j')"
    and rest': "set_values (drop j' (pendingDiagnostics s)) = gs @ rest" by auto
  define s1 where "s1 = flush_resolved e k s"
  have s1: "s1 = s\<lparr>requests := requests s @ [check_request e f],
                    drains := (drains s)[k := AwaitCheck j' f]\<rparr>"
    unfolding s1_def using assms(1,2,4) Cons j'
    by (simp add: flush_resolved_def drain_loop_request)
  have "\<exists>j. set_values (drop j (pendingDiagnostics s1)) = rest \<and>
     run e (map (CheckResolved k) (r # rs')) s1 =
       drain_loop e k j
         (s1\<lparr>requests := requests s1 @ map (check_request e) gs,
            collector := foldl (reconcile e) (collector s1) (zip (f # gs) (r # rs')),
            statusShown := statusShown s1 + answered (r # rs'),
            handledErrors := handledErrors s1 @ thrown (r # rs')\<rparr>)"
  proof (rule drain_run)
    show "k < length (drains s1)" using assms(1) by (simp add: s1)
    show "drains s1 ! k = AwaitCheck j' f" using assms(1) by (simp add: s1)
    show "set_values (drop j' (pendingDiagnostics s1)) = gs @ rest" by (simp add: s1 rest')
    show "\<forall>g\<in>set gs. getCheckstyleConfigurationPath e (realUri g) \<noteq> []"
      using assms(4) Cons by simp
    show "length rs' = length gs" using assms(5) rs Cons by simp
    show "NoResult \<notin> set (r # rs')" using assms(6) rs by simp
  qed
  then obtain j where j: "set_values (drop j (pendingDiagnostics s)) = rest"
    and run1: "run e (map (CheckResolved k) (r # rs')) s1 =
       drain_loop e k j
         (s1\<lparr>requests := requests s1 @ map (check_request e) gs,
            collector := foldl (reconcile e) (collector s1) (zip (f # gs) (r # rs')),
            statusShown := statusShown s1 + answered (r # rs'),
            handledErrors := handledErrors s1 @ thrown (r # rs')\<rparr>)"
    by (auto simp: s1)
  let ?t = "s\<lparr>requests := requests s @ map (check_request e) fs,
            collector := foldl (reconcile e) (collector s) (zip fs rs),
            statusShown := statusShown s + answered rs,
            handledErrors := handledErrors s @ thrown rs\<rparr>"
  have eq: "s1\<lparr>requests := requests s1 @ map (check_request e) gs,
            collector := foldl (reconcile e) (collector s1) (zip (f # gs) (r # rs')),
            statusShown := statusShown s1 + answered (r # rs'),
            handledErrors := handledErrors s1 @ thrown (r # rs')\<rparr>
        = ?t\<lparr>drains := (drains ?t)[k := AwaitCheck j' f]\<rparr>"
    by (simp add: s1 rs Cons)
  have "run e (FlushResolved k # map (CheckResolved k) rs) s =
          run e (map (CheckResolved k) (r # rs')) s1"
    by (simp add: rs s1_def)
  also have "\<dots> = drain_loop e k j ?t"
    unfolding run1 eq by (rule drain_loop_drains)
  finally show ?thesis using j by blast
qed

subsection \<open>How a call ends\<close>

text \<open>
  The call runs to the end of the set and clears it; or it meets a file without a
  configuration path, or a check without a result, and returns at once.
\<close>

lemma cycle_complete:
  assumes "k < length (drains s)" and "drains s ! k = AwaitFlush"
    and "set_values (pendingDiagnostics s) = fs"
    and "\<forall>g\<in>set fs. getCheckstyleConfigurationPath e (realUri g) \<noteq> []"
    and "length rs = length fs" and "NoResult \<notin> set rs"
  shows "run e (FlushResolved k # map (CheckResolved k) rs) s =
           s\<lparr>requests := requests s @ map (check_request e) fs,
             collector := foldl (reconcile e) (collector s) (zip fs rs),
             statusShown := statusShown s + answered rs,
             handledErrors := handledErrors s @ thrown rs,
             pendingDiagnostics := set_clear (pendingDiagnostics s),
             drains := (drains s)[k := Returned]\<rparr>"
proof -
  let ?t = "s\<lparr>requests := requests s @ map (check_request e) fs,
            collector := foldl (reconcile e) (collector s) (zip fs rs),
            statusShown := statusShown s + answered rs,
            handledErrors := handledErrors s @ thrown rs\<rparr>"
  from cycle_run [of k s fs "[]" e rs] assms
  obtain j where j: "set_values (drop j (pendingDiagnostics s)) = []"
    and r: "run e (FlushResolved k # map (CheckResolved k) rs) s = drain_loop e k j ?t"
    by auto
  from j have "iter_next (pendingDiagnostics ?t) j = None" by (simp add: iter_next_None)
  from drain_loop_done [OF this, of e k] r show ?thesis by simp
qed

lemma cycle_exit_unconfigured:
  assumes "k < length (drains s)" and "drains s ! k = AwaitFlush"
    and "set_values (pendingDiagnostics s) = fs @ g # hs"
    and "\<forall>x\<in>set fs. getCheckstyleConfigurationPath e (realUri x) \<noteq> []"
    and "length rs = length fs" and "NoResult \<notin> set rs"
    and "getCheckstyleConfigurationPath e (realUri g) = []"
  shows "run e (FlushResolved k # map (CheckResolved k) rs) s =
           s\<lparr>requests := requests s @ map (check_request e) fs,
             collector := foldl (reconcile e) (collector s) (zip fs rs),
             statusShown := statusShown s + answered rs,
             handledErrors := handledErrors s @ thrown rs,
             channel := channel s @ [''Checkstyle configuration file not set yet, skip the check.''],
             drains := (drains s)[k := Returned]\<rparr>"
proof -
  let ?t = "s\<lparr>requests := requests s @ map (check_request e) fs,
            collector := foldl (reconcile e) (collector s) (zip fs rs),
            statusShown := statusShown s + answered rs,
            handledErrors := handledErrors s @ thrown rs\<rparr>"
  from cycle_run [of k s fs "g # hs" e rs] assms
  obtain j where j: "set_values (drop j (pendingDiagnostics s)) = g # hs"
    and r: "run e (FlushResolved k # map (CheckResolved k) rs) s = drain_loop e k j ?t"
    by auto
  from iter_next_values [OF j] obtain j' where
    "iter_next (pendingDiagnostics ?t) j = Some (g, j')" by auto
  from drain_loop_unconfigured [OF this assms(7), of k] r show ?thesis by simp
qed

lemma cycle_exit_no_result:
  assumes "k < length (drains s)" and "drains s ! k = AwaitFlush"
    and "set_values (pendingDiagnostics s) = fs @ g # hs"
    and "\<forall>x\<in>set fs. getCheckstyleConfigurationPath e (realUri x) \<noteq> []"
    and "length rs = length fs" and "NoResult \<notin> set rs"
    and "getCheckstyleConfigurationPath e (realUri g) \<noteq> []"
  shows "run e (FlushResolved k # map (CheckResolved k) (rs @ [NoResult])) s =
           s\<lparr>requests := requests s @ map (check_request e) (fs @ [g]),
             collector := foldl (reconcile e) (collector s) (zip fs rs),
             statusShown := statusShown s + answered rs,
             handledErrors := handledErrors s @ thrown rs,
             channel := channel s @ [''Unable to get results from Language Server.''],
             drains := (drains s)[k := Returned]\<rparr>"
proof -
  let ?t = "s\<lparr>requests := requests s @ map (check_request e) fs,
            collector := foldl (reconcile e) (collector s) (zip fs rs),
            statusShown := statusShown s + answered rs,
            handledErrors := handledErrors s @ thrown rs\<rparr>"
  from cycle_run [of k s fs "g # hs" e rs] assms
  obtain j where j: "set_values (drop j (pendingDiagnostics s)) = g # hs"
    and r: "run e (FlushResolved k # map (CheckResolved k) rs) s = drain_loop e k j ?t"
    by auto
  from iter_next_values [OF j] obtain j' where
    "iter_next (pendingDiagnostics ?t) j = Some (g, j')" by auto
  from drain_loop_request [OF this assms(7), of k]
  have d: "drain_loop e k j ?t =
             ?t\<lparr>requests := requests ?t @ [check_request e g],
                drains := (drains ?t)[k := AwaitCheck j' g]\<rparr>" .
  have "run e (FlushResolved k # map (CheckResolved k) (rs @ [NoResult])) s =
          check_resolved e k NoResult (run e (FlushResolved k # map (CheckResolved k) rs) s)"
    using run_append [of e "FlushResolved k # map (CheckResolved k) rs" "[CheckResolved k NoResult]" s]
    by simp
  also have "\<dots> = check_resolved e k NoResult (drain_loop e k j ?t)" by (simp only: r)
  finally show ?thesis using assms(1) by (simp add: d check_resolved_def)
qed

text \<open>
  The requests of a call that is resumed for the files \<open>ps\<close>, with \<open>qs\<close> behind them
  in the set: one for each file of \<open>ps\<close>, and one for the first file of \<open>qs\<close> when
  it is configured.
\<close>

lemma cycle_requests:
  assumes "k < length (drains s)" and "drains s ! k = AwaitFlush"
    and "set_values (pendingDiagnostics s) = ps @ qs"
    and "\<forall>x\<in>set ps. getCheckstyleConfigurationPath e (realUri x) \<noteq> []"
    and "length rs = length ps" and "NoResult \<notin> set rs"
  shows "requests (run e (FlushResolved k # map (CheckResolved k) rs) s) =
           requests s @ map (check_request e) ps @
             (case qs of
                [] \<Rightarrow> []
              | q # _ \<Rightarrow>
                  if getCheckstyleConfigurationPath e (realUri q) = [] then []
                  else [check_request e q])"
proof -
  let ?t = "s\<lparr>requests := requests s @ map (check_request e) ps,
            collector := foldl (reconcile e) (collector s) (zip ps rs),
            statusShown := statusShown s + answered rs,
            handledErrors := handledErrors s @ thrown rs\<rparr>"
  from cycle_run [OF assms]
  obtain j where j: "set_values (drop j (pendingDiagnostics s)) = qs"
    and r: "run e (FlushResolved k # map (CheckResolved k) rs) s = drain_loop e k j ?t"
    by auto
  show ?thesis
  proof (cases qs)
    case Nil
    with j have "iter_next (pendingDiagnostics ?t) j = None" by (simp add: iter_next_None)
    from drain_loop_done [OF this, of e k] r Nil show ?thesis by simp
  next
    case (Cons q qs')
    with j iter_next_values [of j "pendingDiagnostics s" q qs']
    obtain j' where n: "iter_next (pendingDiagnostics ?t) j = Some (q, j')" by auto
    show ?thesis
    proof (cases "getCheckstyleConfigurationPath e (realUri q) = []")
      case True
      from drain_loop_unconfigured [OF n True, of k] r Cons True show ?thesis by simp
    next
      case False
      from drain_loop_request [OF n False, of k] r Cons False show ?thesis by simp
    qed
  qed
qed

subsection \<open>What one round sends and stores\<close>

lemma iter_next_mem: "iter_next xs i = Some (v, j) \<Longrightarrow> Some v \<in> set xs"
proof -
  assume "iter_next xs i = Some (v, j)"
  from iter_next_Some [OF this] have "v \<in> set (set_values (drop i xs))" by simp
  then have "Some v \<in> set (drop i xs)" by (simp add: set_values_mem)
  then show ?thesis by (rule in_set_dropD)
qed

lemma drain_loop_effect:
  assumes "k < length (drains s)"
  shows "(requests (drain_loop e k i s) = requests s \<or>
          (\<exists>j file. Some file \<in> set (pendingDiagnostics s) \<and>
             requests (drain_loop e k i s) = requests s @ [check_request e file] \<and>
             drains (drain_loop e k i s) ! k = AwaitCheck j file)) \<and>
         collector (drain_loop e k i s) = collector s"
proof (cases "iter_next (pendingDiagnostics s) i")
  case None
  then show ?thesis by (simp add: drain_loop_done)
next
  case (Some a)
  obtain f j where a: "a = (f, j)" by (cases a)
  show ?thesis
  proof (cases "getCheckstyleConfigurationPath e (realUri f) = []")
    case True
    with Some a show ?thesis by (simp add: drain_loop_unconfigured)
  next
    case False
    from Some a have "Some f \<in> set (pendingDiagnostics s)" by (simp add: iter_next_mem)
    with Some a False assms show ?thesis
      by (auto simp: drain_loop_request)
  qed
qed

lemma iter_next_added:
  assumes "iter_next xs i = None" and "i \<le> length xs" and "Some v \<notin> set xs"
  shows "iter_next (set_add v xs) i = Some (v, Suc (length xs))"
proof -
  have n: "next_from (ys @ [Some v]) m = Some (v, Suc (m + length ys))"
    if "next_from ys m = None" for ys m
    using that by (induction ys arbitrary: m) (auto split: option.splits)
  from assms(1) have "next_from (drop i xs) i = None" by (simp add: iter_next_def)
  from n [OF this] assms(2,3) show ?thesis
    by (simp add: iter_next_def set_add_def)
qed


subsection \<open>A burst of edits\<close>






section \<open>The claims\<close>

subsection \<open>C1: closing a pending document\<close>

text \<open>
  Claim C1. A document that is opened, edited and then closed before the quiet period
  ends is removed from the pending set by the close event, so that no check request is
  ever issued for it; membership in the pending set implies that the document is open.

  The code does not do this. \<open>onDidCloseTextDocument\<close> (lines 71-79) deletes the
  file from \<open>syncedFiles\<close> and closes it; nothing in the class removes a single file
  from \<open>pendingDiagnostics\<close>. Below, \<open>/A.java\<close> is opened at time 0, edited at
  time 50 and closed at time 100, before the timer set for time 250 fires: the editor
  has no such document any more, the file is still pending, and the drain started by
  the timer sends a check request for it.
\<close>

theorem closed_document_still_checked:
  "documents (run ex_env [DidOpen doc_A, Advance 50, DidChange ''/A.java'' [ContentChange 7 0 ''a''],
       Advance 50, DidClose ''/A.java''] initial_state) ''/A.java'' = None
   \<and> clock (run ex_env [DidOpen doc_A, Advance 50, DidChange ''/A.java'' [ContentChange 7 0 ''a''],
       Advance 50, DidClose ''/A.java''] initial_state) = 100
   \<and> debounceTimer (run ex_env [DidOpen doc_A, Advance 50, DidChange ''/A.java'' [ContentChange 7 0 ''a''],
       Advance 50, DidClose ''/A.java''] initial_state) = Some 250
   \<and> pendingDiagnostics (run ex_env [DidOpen doc_A, Advance 50, DidChange ''/A.java'' [ContentChange 7 0 ''a''],
       Advance 50, DidClose ''/A.java''] initial_state) = [Some file_A]
   \<and> requests (run ex_env [DidOpen doc_A, Advance 50, DidChange ''/A.java'' [ContentChange 7 0 ''a''],
       Advance 50, DidClose ''/A.java'', Advance 200, FlushResolved 0] initial_state)
       = [check_request ex_env file_A]"
  by (simp add: model_defs ex_defs)

text \<open>
  Claim C1, amended. Closing a tracked document removes its file from the registry
  \<open>syncedFiles\<close> and releases its mirrored location at once, and leaves the pending
  set and the armed timer as they are. So a file that is closed while it is pending
  stays pending: when it is the only pending file and its configuration path is set,
  the drain started by the timer sends one check request for it.
\<close>

theorem close_leaves_pending_set:
  assumes "syncedFiles s p = Some f"
  shows "syncedFiles (onDidCloseTextDocument p s) p = None \<and>
         mirrors (onDidCloseTextDocument p s) (syncUri f) = None \<and>
         pendingDiagnostics (onDidCloseTextDocument p s) = pendingDiagnostics s \<and>
         debounceTimer (onDidCloseTextDocument p s) = debounceTimer s \<and>
         (listening s \<and> set_values (pendingDiagnostics s) = [f] \<and>
          debounceTimer s = Some d \<and> d \<le> clock s + n \<and>
          getCheckstyleConfigurationPath e (realUri f) \<noteq> [] \<longrightarrow>
            requests (run e [DidClose p, Advance n, FlushResolved (length (drains s))] s)
              = requests s @ [check_request e f])"
proof -
  let ?c = "onDidCloseTextDocument p s"
  have c: "?c = s\<lparr>syncedFiles := (syncedFiles s)(p := None),
                  mirrors := (mirrors s)(syncUri f := None)\<rparr>"
    using assms by (simp add: onDidCloseTextDocument_def SyncedFile_close_def)
  have "requests (run e [DidClose p, Advance n, FlushResolved (length (drains s))] s)
              = requests s @ [check_request e f]"
    if l: "listening s" and pv: "set_values (pendingDiagnostics s) = [f]"
      and t: "debounceTimer s = Some d" and d: "d \<le> clock s + n"
      and cfg: "getCheckstyleConfigurationPath e (realUri f) \<noteq> []"
  proof -
    define s1 where "s1 = step e (DidClose p) s"
    define s2 where "s2 = step e (Advance n) s1"
    have s1: "s1 = s\<lparr>documents := (documents s)(p := None),
                     syncedFiles := (syncedFiles s)(p := None),
                     mirrors := (mirrors s)(syncUri f := None)\<rparr>"
      using assms l by (simp add: s1_def onDidCloseTextDocument_def SyncedFile_close_def)
    have s2: "s2 = s1\<lparr>clock := clock s + n, debounceTimer := None,
                     mirrors := map_option flush_mirror \<circ> mirrors s1,
                     drains := drains s @ [AwaitFlush]\<rparr>"
      using t d
      by (simp add: s2_def s1 advance_def sendPendingDiagnostics_def FileSynchronizer_flush_def)
    from pv iter_next_values [of 0 "pendingDiagnostics s" f "[]"]
    obtain j where "iter_next (pendingDiagnostics s) 0 = Some (f, j)" by auto
    then have j: "iter_next (pendingDiagnostics s2) 0 = Some (f, j)" by (simp add: s2 s1)
    have "step e (FlushResolved (length (drains s))) s2 =
            s2\<lparr>requests := requests s2 @ [check_request e f],
               drains := (drains s2)[length (drains s) := AwaitCheck j f]\<rparr>"
      using drain_loop_request [OF j cfg, of "length (drains s)"]
      by (simp add: flush_resolved_def) (simp add: s2)
    then have "requests (step e (FlushResolved (length (drains s))) s2)
        = requests s @ [check_request e f]" by (simp add: s2 s1)
    then show ?thesis by (simp add: s1_def s2_def)
  qed
  then show ?thesis unfolding c by simp
qed

text \<open>
  Claim C1, amended, on \<open>/A.java\<close>: open and pending, then closed; the file stays
  in the pending set and is requested 200 milliseconds later.
\<close>

theorem close_leaves_pending_set_witness:
  "syncedFiles (run ex_env [DidOpen doc_A] initial_state) ''/A.java'' = Some file_A
   \<and> set_values (pendingDiagnostics (run ex_env [DidOpen doc_A] initial_state)) = [file_A]
   \<and> debounceTimer (run ex_env [DidOpen doc_A] initial_state) = Some 200
   \<and> pendingDiagnostics (onDidCloseTextDocument ''/A.java'' (run ex_env [DidOpen doc_A] initial_state))
       = [Some file_A]
   \<and> syncedFiles (onDidCloseTextDocument ''/A.java'' (run ex_env [DidOpen doc_A] initial_state))
       ''/A.java'' = None
   \<and> requests (run ex_env [DidClose ''/A.java'', Advance 200, FlushResolved 0]
       (run ex_env [DidOpen doc_A] initial_state)) = [check_request ex_env file_A]"
  using close_leaves_pending_set
    [of "run ex_env [DidOpen doc_A] initial_state" "''/A.java''" file_A 200 200 ex_env]
  by (simp add: model_defs ex_defs)

subsection \<open>C2: a file without a configuration path\<close>

text \<open>
  Claim C2. During a drain, a file whose configuration path is the empty string is
  skipped alone, with one log line, and every other file pending in the same cycle
  still gets its check request; the cycle does not end early.

  The code at the input below: \<open>/B.java\<close> has no configuration path and is first in
  the set, \<open>/C.java\<close> has one and is second. Line 93 returns from the call: one
  line is logged, the call has returned, and no request was sent for \<open>/C.java\<close>. For
  a throw of the check the loop goes on with the next file (lines 106-108, see C6).
\<close>

theorem unconfigured_file_ends_cycle:
  "set_values (pendingDiagnostics (run ex_env [DidOpen doc_B, DidOpen doc_C, Advance 200] initial_state))
     = [file_B, file_C]
   \<and> getCheckstyleConfigurationPath ex_env (realUri file_B) = []
   \<and> getCheckstyleConfigurationPath ex_env (realUri file_C) = ''checkstyle.xml''
   \<and> requests (run ex_env [DidOpen doc_B, DidOpen doc_C, Advance 200, FlushResolved 0] initial_state) = []
   \<and> channel (run ex_env [DidOpen doc_B, DidOpen doc_C, Advance 200, FlushResolved 0] initial_state)
     = [''Checkstyle configuration file not set yet, skip the check.'']
   \<and> drains (run ex_env [DidOpen doc_B, DidOpen doc_C, Advance 200, FlushResolved 0] initial_state)
     = [Returned]"
  by (simp add: model_defs ex_defs)

subsection \<open>C3: the pending set while a drain is in progress\<close>

text \<open>
  Claim C3. When the quiet-period timer fires, the pending set is snapshotted and
  cleared before anything is awaited, so that an edit arriving while the drain is in
  progress lands in a fresh pending set and starts a new cycle, and no pending file is
  lost or processed twice.

  The code takes no snapshot: \<open>sendPendingDiagnostics\<close> iterates over the live set
  (line 89) and clears it after the loop (line 110). Below, the timer fires for
  \<open>/A.java\<close> and the set still holds the file while the flush is awaited; the
  document is edited while its check is awaited, and the edit lands in that same set,
  which already holds the file; the check resolves, the loop ends and clears the set;
  the timer armed by the edit fires 200 milliseconds later on an empty set. One request
  was sent, before the edit, and none after it.
\<close>

theorem edit_during_drain_is_lost:
  "pendingDiagnostics (run ex_env [DidOpen doc_A, Advance 200] initial_state) = [Some file_A]
   \<and> drains (run ex_env [DidOpen doc_A, Advance 200] initial_state) = [AwaitFlush]
   \<and> pendingDiagnostics (run ex_env [DidOpen doc_A, Advance 200, FlushResolved 0,
        DidChange ''/A.java'' [ContentChange 7 0 ''a'']] initial_state) = [Some file_A]
   \<and> pendingDiagnostics (run ex_env [DidOpen doc_A, Advance 200, FlushResolved 0,
        DidChange ''/A.java'' [ContentChange 7 0 ''a''], CheckResolved 0 (Results [])] initial_state)
       = [None]
   \<and> requests (run ex_env [DidOpen doc_A, Advance 200, FlushResolved 0,
        DidChange ''/A.java'' [ContentChange 7 0 ''a''], CheckResolved 0 (Results []),
        Advance 200, FlushResolved 1] initial_state) = [check_request ex_env file_A]
   \<and> drains (run ex_env [DidOpen doc_A, Advance 200, FlushResolved 0,
        DidChange ''/A.java'' [ContentChange 7 0 ''a''], CheckResolved 0 (Results []),
        Advance 200, FlushResolved 1] initial_state) = [Returned, Returned]
   \<and> documents (run ex_env [DidOpen doc_A, Advance 200, FlushResolved 0,
        DidChange ''/A.java'' [ContentChange 7 0 ''a''], CheckResolved 0 (Results []),
        Advance 200, FlushResolved 1] initial_state) ''/A.java'' = Some ''class Aa''"
  by (simp add: model_defs ex_defs)

text \<open>
  Claim C3, amended. When the quiet-period timer fires, the pending set is neither
  snapshotted nor cleared: the call starts the flush and awaits it, then iterates over
  the live pending set, and clears the set only when the iteration has come to its end
  (line 110). A file whose edit arrives while the drain is in progress is added to that
  same set (a file that is still in it is not added again) and the timer is armed anew;
  a file added behind the position of the drain's iterator is the next file that this
  drain visits.
\<close>

theorem drain_iterates_live_pending_set:
  "pendingDiagnostics (advance n s) = pendingDiagnostics s \<and>
   pendingDiagnostics (sendPendingDiagnostics s) = pendingDiagnostics s \<and>
   pendingDiagnostics (drain_loop e k i s) =
     (if iter_next (pendingDiagnostics s) i = None then set_clear (pendingDiagnostics s)
      else pendingDiagnostics s) \<and>
   pendingDiagnostics (requestDiagnostic f s) = set_add f (pendingDiagnostics s) \<and>
   debounceTimer (requestDiagnostic f s) = Some (clock s + DEBOUNCE_WAIT) \<and>
   (iter_next (pendingDiagnostics s) i = None \<and> i \<le> length (pendingDiagnostics s) \<and>
    Some f \<notin> set (pendingDiagnostics s) \<longrightarrow>
      iter_next (pendingDiagnostics (requestDiagnostic f s)) i
        = Some (f, Suc (length (pendingDiagnostics s))))"
proof -
  have "pendingDiagnostics (advance n s) = pendingDiagnostics s"
    by (simp add: advance_def sendPendingDiagnostics_def FileSynchronizer_flush_def Let_def
        split: option.splits)
  moreover have "pendingDiagnostics (sendPendingDiagnostics s) = pendingDiagnostics s"
    by (simp add: sendPendingDiagnostics_def FileSynchronizer_flush_def)
  moreover have "pendingDiagnostics (drain_loop e k i s) =
     (if iter_next (pendingDiagnostics s) i = None then set_clear (pendingDiagnostics s)
      else pendingDiagnostics s)"
    by (simp add: drain_loop_def Let_def split: option.splits prod.splits)
  moreover have "pendingDiagnostics (requestDiagnostic f s) = set_add f (pendingDiagnostics s)"
    and "debounceTimer (requestDiagnostic f s) = Some (clock s + DEBOUNCE_WAIT)"
    by (simp_all add: requestDiagnostic_def diagnosticDelayTrigger_def)
  moreover have "iter_next (pendingDiagnostics (requestDiagnostic f s)) i
        = Some (f, Suc (length (pendingDiagnostics s)))"
    if "iter_next (pendingDiagnostics s) i = None" "i \<le> length (pendingDiagnostics s)"
      "Some f \<notin> set (pendingDiagnostics s)"
    using iter_next_added [OF that]
    by (simp add: requestDiagnostic_def diagnosticDelayTrigger_def)
  ultimately show ?thesis by blast
qed

text \<open>
  Claim C3, amended, on \<open>/A.java\<close>: the timer fires and the set keeps the file;
  while the check of \<open>/A.java\<close> is awaited the iterator is at the end of the set, and
  a second file requested then is what the iterator yields next.
\<close>

theorem drain_iterates_live_pending_set_witness:
  "pendingDiagnostics (advance 200 (run ex_env [DidOpen doc_A] initial_state)) = [Some file_A]
   \<and> iter_next [Some file_A] 1 = None
   \<and> iter_next (pendingDiagnostics (requestDiagnostic file_C
        (run ex_env [DidOpen doc_A, Advance 200, FlushResolved 0] initial_state))) 1
      = Some (file_C, 2)"
  using drain_iterates_live_pending_set
    [of 200 "run ex_env [DidOpen doc_A] initial_state" ex_env 0 1 file_C]
    drain_iterates_live_pending_set
    [of 0 "run ex_env [DidOpen doc_A, Advance 200, FlushResolved 0] initial_state" ex_env 0 1 file_C]
  by (simp add: model_defs ex_defs)

subsection \<open>C4: dispose\<close>

text \<open>
  Claim C4. \<open>dispose\<close> stops the manager from accepting further events, cancels an
  armed debounce timer, disposes the synchronizer and leaves no pending work: after it,
  no drain can fire and the pending set holds no work.

  The code of \<open>dispose\<close> (lines 38-43) disposes the synchronizer and the listeners.
  It does not call \<open>cancel\<close> of the debounced function and does not touch
  \<open>pendingDiagnostics\<close>. Below, \<open>/A.java\<close> is opened at time 0 and the manager
  disposed at time 50: the timer is still set for time 200 and the file still pending;
  at time 200 a drain starts, and it sends a check request.
\<close>

theorem dispose_leaves_timer_armed:
  "debounceTimer (run ex_env [DidOpen doc_A, Advance 50, Dispose] initial_state) = Some 200
   \<and> pendingDiagnostics (run ex_env [DidOpen doc_A, Advance 50, Dispose] initial_state) = [Some file_A]
   \<and> drains (run ex_env [DidOpen doc_A, Advance 50, Dispose, Advance 150] initial_state) = [AwaitFlush]
   \<and> requests (run ex_env [DidOpen doc_A, Advance 50, Dispose, Advance 150, FlushResolved 0] initial_state)
       = [check_request ex_env file_A]"
  by (simp add: model_defs ex_defs)

text \<open>
  Claim C4, amended. \<open>dispose\<close> disposes the synchronizer, which releases every
  mirrored location, and the registered listeners, so that an editor event after it
  changes nothing of the manager. It leaves an armed debounce timer armed and the
  pending set as it is: a timer armed before \<open>dispose\<close> still fires afterwards and
  starts a drain over the files that are pending.
\<close>

theorem dispose_effect:
  "listening (dispose s) = False \<and> synchronizerDisposed (dispose s) \<and>
   mirrors (dispose s) = Map.empty \<and>
   debounceTimer (dispose s) = debounceTimer s \<and>
   pendingDiagnostics (dispose s) = pendingDiagnostics s \<and>
   drains (dispose s) = drains s \<and>
   (editor_event ev \<longrightarrow>
      step e ev (dispose s) = (dispose s)\<lparr>documents := documents (step e ev (dispose s))\<rparr>) \<and>
   (debounceTimer s = Some d \<and> d \<le> clock s + n \<longrightarrow>
      drains (run e [Dispose, Advance n] s) = drains s @ [AwaitFlush] \<and>
      pendingDiagnostics (run e [Dispose, Advance n] s) = pendingDiagnostics s)"
proof -
  have "editor_event ev \<longrightarrow>
      step e ev (dispose s) = (dispose s)\<lparr>documents := documents (step e ev (dispose s))\<rparr>"
    by (cases ev) (simp_all add: dispose_def FileSynchronizer_dispose_def split: option.splits)
  moreover have "debounceTimer s = Some d \<and> d \<le> clock s + n \<longrightarrow>
      drains (run e [Dispose, Advance n] s) = drains s @ [AwaitFlush] \<and>
      pendingDiagnostics (run e [Dispose, Advance n] s) = pendingDiagnostics s"
    by (simp add: dispose_def FileSynchronizer_dispose_def advance_def sendPendingDiagnostics_def
        FileSynchronizer_flush_def)
  ultimately show ?thesis by (simp add: dispose_def FileSynchronizer_dispose_def)
qed

text \<open>
  Claim C4, amended, on \<open>/A.java\<close>: an edit after \<open>dispose\<close> reaches no handler,
  and the timer armed by the opening fires after \<open>dispose\<close>.
\<close>

theorem dispose_effect_witness:
  "editor_event (DidChange ''/A.java'' [ContentChange 0 0 ''a''])
   \<and> debounceTimer (run ex_env [DidOpen doc_A] initial_state) = Some 200
   \<and> listening (dispose (run ex_env [DidOpen doc_A] initial_state)) = False
   \<and> pendingDiagnostics (step ex_env (DidChange ''/A.java'' [ContentChange 0 0 ''a''])
        (dispose (run ex_env [DidOpen doc_A] initial_state))) = [Some file_A]
   \<and> debounceTimer (step ex_env (DidChange ''/A.java'' [ContentChange 0 0 ''a''])
        (dispose (run ex_env [DidOpen doc_A] initial_state))) = Some 200
   \<and> drains (run ex_env [Dispose, Advance 200] (run ex_env [DidOpen doc_A] initial_state)) = [AwaitFlush]"
  using dispose_effect
    [of "run ex_env [DidOpen doc_A] initial_state" "DidChange ''/A.java'' [ContentChange 0 0 ''a'']"
        ex_env 200 200]
  by (simp add: model_defs ex_defs)

subsection \<open>C5: a check without a result\<close>

text \<open>
  Claim C5. During a drain, when the remote check of one file returns no result, this
  is logged and the cycle continues: every other file pending in the same cycle still
  gets its check request.

  The code at the input below: \<open>/A.java\<close> and \<open>/C.java\<close> are pending, both
  configured, and the check of \<open>/A.java\<close> settles with \<open>undefined\<close>. Line 101
  returns from the call: one line is logged, the call has returned, and no request was
  sent for \<open>/C.java\<close>.
\<close>

theorem no_result_ends_cycle:
  "set_values (pendingDiagnostics (run ex_env [DidOpen doc_A, DidOpen doc_C, Advance 200] initial_state))
     = [file_A, file_C]
   \<and> requests (run ex_env [DidOpen doc_A, DidOpen doc_C, Advance 200, FlushResolved 0,
        CheckResolved 0 NoResult] initial_state) = [check_request ex_env file_A]
   \<and> channel (run ex_env [DidOpen doc_A, DidOpen doc_C, Advance 200, FlushResolved 0,
        CheckResolved 0 NoResult] initial_state) = [''Unable to get results from Language Server.'']
   \<and> drains (run ex_env [DidOpen doc_A, DidOpen doc_C, Advance 200, FlushResolved 0,
        CheckResolved 0 NoResult] initial_state) = [Returned]"
  by (simp add: model_defs ex_defs)

subsection \<open>C6: a check that throws\<close>

text \<open>
  Claim C6. When the remote check call for one file throws, the error is routed to the
  shared error handler and the loop continues with the next pending file: a failure of
  the remote call never aborts the cycle, and the other files of the cycle still get
  their check request and their results reconciled.

  A call that awaits its flush, with the files \<open>fs\<close> pending, all configured, and
  with one reply per file, each either results or a throw, runs to its end: every file
  is requested, every thrown error is handed to the error handler, the results of
  every other file are stored, and the set is cleared at line 110. And whenever a
  throw resumes a call, the error is handed over and the loop goes on at the
  iterator's position.
\<close>

theorem check_failure_never_aborts_cycle:
  assumes "k < length (drains s)" and "drains s ! k = AwaitFlush"
    and "set_values (pendingDiagnostics s) = fs"
    and "\<forall>g\<in>set fs. getCheckstyleConfigurationPath e (realUri g) \<noteq> []"
    and "length rs = length fs" and "NoResult \<notin> set rs"
  shows "run e (FlushResolved k # map (CheckResolved k) rs) s =
           s\<lparr>requests := requests s @ map (check_request e) fs,
             collector := foldl (reconcile e) (collector s) (zip fs rs),
             statusShown := statusShown s + answered rs,
             handledErrors := handledErrors s @ thrown rs,
             pendingDiagnostics := set_clear (pendingDiagnostics s),
             drains := (drains s)[k := Returned]\<rparr>
         \<and> (\<forall>t i file err. k < length (drains t) \<and> drains t ! k = AwaitCheck i file \<longrightarrow>
               check_resolved e k (Throws err) t =
                 drain_loop e k i (t\<lparr>handledErrors := handledErrors t @ [err]\<rparr>))"
proof
  show "run e (FlushResolved k # map (CheckResolved k) rs) s =
           s\<lparr>requests := requests s @ map (check_request e) fs,
             collector := foldl (reconcile e) (collector s) (zip fs rs),
             statusShown := statusShown s + answered rs,
             handledErrors := handledErrors s @ thrown rs,
             pendingDiagnostics := set_clear (pendingDiagnostics s),
             drains := (drains s)[k := Returned]\<rparr>"
    using assms by (rule cycle_complete)
next
  show "\<forall>t i file err. k < length (drains t) \<and> drains t ! k = AwaitCheck i file \<longrightarrow>
               check_resolved e k (Throws err) t =
                 drain_loop e k i (t\<lparr>handledErrors := handledErrors t @ [err]\<rparr>)"
    by (simp add: check_resolved_def)
qed

text \<open>
  Claim C6 on two pending files: the check of \<open>/A.java\<close> throws, \<open>/C.java\<close>
  still gets its request and its results are stored.
\<close>

theorem check_failure_never_aborts_cycle_witness:
  "drains (run ex_env [DidOpen doc_A, DidOpen doc_C, Advance 200] initial_state) ! 0 = AwaitFlush
   \<and> set_values (pendingDiagnostics (run ex_env [DidOpen doc_A, DidOpen doc_C, Advance 200] initial_state))
       = [file_A, file_C]
   \<and> requests (run ex_env [DidOpen doc_A, DidOpen doc_C, Advance 200, FlushResolved 0,
        CheckResolved 0 (Throws ''connection lost''), CheckResolved 0 (Results [finding_1])] initial_state)
       = [check_request ex_env file_A, check_request ex_env file_C]
   \<and> handledErrors (run ex_env [DidOpen doc_A, DidOpen doc_C, Advance 200, FlushResolved 0,
        CheckResolved 0 (Throws ''connection lost''), CheckResolved 0 (Results [finding_1])] initial_state)
       = [''connection lost'']
   \<and> collector (run ex_env [DidOpen doc_A, DidOpen doc_C, Advance 200, FlushResolved 0,
        CheckResolved 0 (Throws ''connection lost''), CheckResolved 0 (Results [finding_1])] initial_state)
        ''/C.java'' = Some [finding_1]"
  using check_failure_never_aborts_cycle
    [of 0 "run ex_env [DidOpen doc_A, DidOpen doc_C, Advance 200] initial_state"
        "[file_A, file_C]" ex_env "[Throws ''connection lost'', Results [finding_1]]"]
  by (simp add: model_defs ex_defs)

subsection \<open>C7: results replace results\<close>

text \<open>
  Claim C7. Applying results for the same document identity twice, first \<open>r1\<close> and
  then \<open>r2\<close>, leaves the diagnostics store with exactly \<open>r2\<close> for that identity:
  each application is a full replacement (delete, then insert), never a union or a
  merge. This holds whatever \<open>addDiagnostics\<close> does with an entry that exists, since
  line 103 deletes the entry first; the entries of other identities are untouched.
\<close>

theorem apply_results_replaces:
  "apply_results e uri r1 store = store(uri \<mapsto> r1) \<and>
   apply_results e uri r2 (apply_results e uri r1 store) = store(uri \<mapsto> r2)"
  by (simp add: apply_results_def addDiagnostics_def collector_delete_def)

text \<open>
  Claim C7 with a collector whose \<open>addDiagnostics\<close> appends to an existing entry:
  the second application still leaves the second results alone.
\<close>

theorem apply_results_replaces_witness:
  "apply_results ex_env ''/A.java'' [finding_2]
     (apply_results ex_env ''/A.java'' [finding_1] Map.empty) ''/A.java'' = Some [finding_2]"
  using apply_results_replaces [of ex_env "''/A.java''" "[finding_1]" Map.empty "[finding_2]"]
  by (simp add: apply_results_def addDiagnostics_def collector_delete_def)

subsection \<open>C8: a burst of edits gives one request\<close>




subsection \<open>C9: mirrored identity out, real identity in\<close>

text \<open>
  Claim C9. Every check request issued during a drain carries the mirrored location's
  identity of the file (\<open>syncUri\<close>), not its real path, while the resulting
  diagnostics are stored under the real identity of the document (\<open>realUri\<close>); the
  translation from the one to the other happens where the results are reconciled.

  For every event and every state: the event sends no request, or it sends one request,
  for a pending file, with the file's \<open>syncUri\<close> as the location and the settings
  resolved for its \<open>realUri\<close>, and the call then awaits the check of that file; and
  the event leaves the store alone, or it is the reply with results to a call that
  awaits the check of a file, and the store then holds these results under the
  \<open>realUri\<close> of that file.
\<close>

theorem remote_call_by_syncUri_store_by_realUri:
  "(requests (step e ev s) = requests s \<or>
     (\<exists>k j file. Some file \<in> set (pendingDiagnostics s) \<and> k < length (drains s) \<and>
        requests (step e ev s) = requests s @
          [\<lparr>req_command = CHECK_CODE_WITH_CHECKSTYLE, req_uri = syncUri file,
            req_configurationPath = getCheckstyleConfigurationPath e (realUri file),
            req_properties = getCheckstyleProperties e (realUri file)\<rparr>] \<and>
        drains (step e ev s) ! k = AwaitCheck j file))
   \<and> (collector (step e ev s) = collector s \<or>
     (\<exists>k i file results. ev = CheckResolved k (Results results) \<and> k < length (drains s) \<and>
        drains s ! k = AwaitCheck i file \<and>
        collector (step e ev s) = (collector s)(realUri file \<mapsto> results)))"
proof (cases ev)
  case (DidOpen d)
  then show ?thesis
    by (simp add: onDidOpenTextDocument_def requestDiagnostic_def diagnosticDelayTrigger_def
        SyncedFile_open_def Let_def)
next
  case (DidChange p c)
  then show ?thesis
    by (simp add: onDidChangeTextDocument_def requestDiagnostic_def diagnosticDelayTrigger_def
        SyncedFile_onContentChanged_def Let_def split: option.splits)
next
  case (DidClose p)
  then show ?thesis
    by (simp add: onDidCloseTextDocument_def SyncedFile_close_def Let_def split: option.splits)
next
  case (Advance n)
  then show ?thesis
    by (simp add: advance_def sendPendingDiagnostics_def FileSynchronizer_flush_def Let_def
        split: option.splits)
next
  case (FlushResolved k)
  show ?thesis
  proof (cases "k < length (drains s) \<and> drains s ! k = AwaitFlush")
    case True
    with drain_loop_effect [of k s e 0] FlushResolved show ?thesis
      by (auto simp: flush_resolved_def check_request_def)
  next
    case False
    with FlushResolved show ?thesis by (auto simp: flush_resolved_def)
  qed
next
  case (CheckResolved k r)
  show ?thesis
  proof (cases "k < length (drains s)")
    case False
    with CheckResolved show ?thesis by (simp add: check_resolved_def)
  next
    case True
    show ?thesis
    proof (cases "drains s ! k")
      case AwaitFlush
      with CheckResolved True show ?thesis by (simp add: check_resolved_def)
    next
      case Returned
      with CheckResolved True show ?thesis by (simp add: check_resolved_def)
    next
      case (AwaitCheck i f)
      show ?thesis
      proof (cases r)
        case NoResult
        with CheckResolved True AwaitCheck show ?thesis by (simp add: check_resolved_def)
      next
        case (Throws err)
        let ?m = "s\<lparr>handledErrors := handledErrors s @ [err]\<rparr>"
        have st: "step e ev s = drain_loop e k i ?m"
          using CheckResolved True AwaitCheck Throws by (simp add: check_resolved_def)
        from drain_loop_effect [of k ?m e i] True show ?thesis
          unfolding st by (auto simp: check_request_def)
      next
        case (Results results)
        let ?m = "s\<lparr>collector := apply_results e (realUri f) results (collector s),
                     statusShown := Suc (statusShown s)\<rparr>"
        have st: "step e ev s = drain_loop e k i ?m"
          using CheckResolved True AwaitCheck Results by (simp add: check_resolved_def)
        have c: "collector ?m = (collector s)(realUri f \<mapsto> results)"
          by (simp add: apply_results_def addDiagnostics_def collector_delete_def)
        from drain_loop_effect [of k ?m e i] True
        have req: "requests (drain_loop e k i ?m) = requests s \<or>
          (\<exists>j file. Some file \<in> set (pendingDiagnostics s) \<and>
             requests (drain_loop e k i ?m) = requests s @ [check_request e file] \<and>
             drains (drain_loop e k i ?m) ! k = AwaitCheck j file)"
          and col: "collector (drain_loop e k i ?m) = collector ?m" by simp_all
        from req True have "requests (step e ev s) = requests s \<or>
          (\<exists>k j file. Some file \<in> set (pendingDiagnostics s) \<and> k < length (drains s) \<and>
            requests (step e ev s) = requests s @
              [\<lparr>req_command = CHECK_CODE_WITH_CHECKSTYLE, req_uri = syncUri file,
                req_configurationPath = getCheckstyleConfigurationPath e (realUri file),
                req_properties = getCheckstyleProperties e (realUri file)\<rparr>] \<and>
            drains (step e ev s) ! k = AwaitCheck j file)"
          unfolding st by (auto simp: check_request_def)
        moreover have "\<exists>k i file results. ev = CheckResolved k (Results results) \<and>
            k < length (drains s) \<and> drains s ! k = AwaitCheck i file \<and>
            collector (step e ev s) = (collector s)(realUri file \<mapsto> results)"
          unfolding st col c using CheckResolved Results True AwaitCheck by blast
        ultimately show ?thesis by blast
      qed
    qed
  qed
next
  case Dispose
  then show ?thesis by (simp add: dispose_def FileSynchronizer_dispose_def)
qed

text \<open>
  Claim C9 on \<open>/A.java\<close>: the request names \<open>/tmp/sync/A.java\<close>, the results are
  stored under \<open>/A.java\<close>.
\<close>

theorem remote_call_by_syncUri_store_by_realUri_witness:
  "requests (step ex_env (FlushResolved 0) (run ex_env [DidOpen doc_A, Advance 200] initial_state))
     = [\<lparr>req_command = ''java.checkstyle.checkCode'', req_uri = ''/tmp/sync/A.java'',
         req_configurationPath = ''checkstyle.xml'', req_properties = [(''basedir'', ''/'')]\<rparr>]
   \<and> collector (step ex_env (CheckResolved 0 (Results [finding_1]))
        (run ex_env [DidOpen doc_A, Advance 200, FlushResolved 0] initial_state))
     = [''/A.java'' \<mapsto> [finding_1]]"
  using remote_call_by_syncUri_store_by_realUri
    [of ex_env "FlushResolved 0" "run ex_env [DidOpen doc_A, Advance 200] initial_state"]
    remote_call_by_syncUri_store_by_realUri
    [of ex_env "CheckResolved 0 (Results [finding_1])"
        "run ex_env [DidOpen doc_A, Advance 200, FlushResolved 0] initial_state"]
  by (simp add: model_defs ex_defs)

subsection \<open>C10: an early exit keeps the pending set\<close>

text \<open>
  Claim C10. Whenever a drain cycle exits early (at the first file whose configuration
  path is empty, or at the first file whose check returns no result), the pending set
  is left unchanged: no file processed so far is removed, so every file of the set,
  also those whose check succeeded and whose results were reconciled in this cycle,
  remains pending and is checked again in the next cycle.

  The files remain pending, but the next cycle need not check every one of them: it
  starts at the first file of the set and may return early again. Below, the results
  for \<open>/A.java\<close> are stored and the check of \<open>/C.java\<close> has no result; both stay
  pending. An edit of \<open>/C.java\<close> arms the timer; in the next cycle \<open>/A.java\<close> is
  requested again, its check has no result, and the call returns without a request for
  \<open>/C.java\<close>. And with \<open>/B.java\<close>, which has no configuration path, ahead of
  \<open>/C.java\<close>: the first cycle and the next both return at \<open>/B.java\<close>, and
  \<open>/C.java\<close>, pending all along, is not requested in either.
\<close>

theorem next_cycle_stops_again:
  "set_values (pendingDiagnostics (run ex_env [DidOpen doc_A, DidOpen doc_C, Advance 200,
        FlushResolved 0, CheckResolved 0 (Results [finding_1]), CheckResolved 0 NoResult] initial_state))
     = [file_A, file_C]
   \<and> requests (run ex_env [DidOpen doc_A, DidOpen doc_C, Advance 200,
        FlushResolved 0, CheckResolved 0 (Results [finding_1]), CheckResolved 0 NoResult] initial_state)
     = [check_request ex_env file_A, check_request ex_env file_C]
   \<and> drains (run ex_env [DidOpen doc_A, DidOpen doc_C, Advance 200,
        FlushResolved 0, CheckResolved 0 (Results [finding_1]), CheckResolved 0 NoResult,
        DidChange ''/C.java'' [ContentChange 7 0 ''c''], Advance 200,
        FlushResolved 1, CheckResolved 1 NoResult] initial_state)
     = [Returned, Returned]
   \<and> requests (run ex_env [DidOpen doc_A, DidOpen doc_C, Advance 200,
        FlushResolved 0, CheckResolved 0 (Results [finding_1]), CheckResolved 0 NoResult,
        DidChange ''/C.java'' [ContentChange 7 0 ''c''], Advance 200,
        FlushResolved 1, CheckResolved 1 NoResult] initial_state)
     = [check_request ex_env file_A, check_request ex_env file_C, check_request ex_env file_A]
   \<and> set_values (pendingDiagnostics (run ex_env [DidOpen doc_B, DidOpen doc_C, Advance 200,
        FlushResolved 0] initial_state)) = [file_B, file_C]
   \<and> drains (run ex_env [DidOpen doc_B, DidOpen doc_C, Advance 200, FlushResolved 0,
        DidChange ''/C.java'' [ContentChange 7 0 ''c''], Advance 200, FlushResolved 1] initial_state)
     = [Returned, Returned]
   \<and> requests (run ex_env [DidOpen doc_B, DidOpen doc_C, Advance 200, FlushResolved 0,
        DidChange ''/C.java'' [ContentChange 7 0 ''c''], Advance 200, FlushResolved 1] initial_state)
     = []"
  by (simp add: model_defs ex_defs)

text \<open>
  Claim C10, amended. Whenever a drain cycle exits early (at the first file whose
  configuration path is empty, or at the first file whose check returns no result),
  the pending set is left unchanged and no timer is armed: no file processed so far is
  removed, so every file of the set, also those whose check succeeded and whose
  results were reconciled in this cycle, remains pending. The next cycle iterates over
  the same set from its first file: it requests again every file that comes before
  the place where it returns itself, and so every file of the set when every file is
  configured then and no check returns no result.

  The files \<open>fs\<close> are processed with the replies \<open>rs\<close>; then the call returns at
  \<open>g\<close>, either at line 93 (no configuration path) or at line 101 (no result). The
  pending set and the timer are as before, although the results for \<open>fs\<close> are in the
  store. The next call of \<open>sendPendingDiagnostics\<close>, resumed for the first files
  \<open>ps\<close> of the same set, configured at that time and with replies other than
  \<open>undefined\<close>, requests each of \<open>ps\<close>, and the file behind them when there is one
  and it is configured.
\<close>

theorem early_exit_keeps_pending:
  assumes "k < length (drains s)" and "drains s ! k = AwaitFlush"
    and "set_values (pendingDiagnostics s) = fs @ g # hs"
    and "\<forall>x\<in>set fs. getCheckstyleConfigurationPath e (realUri x) \<noteq> []"
    and "length rs = length fs" and "NoResult \<notin> set rs"
    and "getCheckstyleConfigurationPath e (realUri g) = [] \<and>
           evs = FlushResolved k # map (CheckResolved k) rs \<or>
         getCheckstyleConfigurationPath e (realUri g) \<noteq> [] \<and>
           evs = FlushResolved k # map (CheckResolved k) (rs @ [NoResult])"
    and "fs @ g # hs = ps @ qs"
    and "\<forall>x\<in>set ps. getCheckstyleConfigurationPath e' (realUri x) \<noteq> []"
    and "length rs' = length ps" and "NoResult \<notin> set rs'"
  shows "drains (run e evs s) ! k = Returned \<and>
         pendingDiagnostics (run e evs s) = pendingDiagnostics s \<and>
         debounceTimer (run e evs s) = debounceTimer s \<and>
         collector (run e evs s) = foldl (reconcile e) (collector s) (zip fs rs) \<and>
         requests (run e' (FlushResolved (length (drains s)) # map (CheckResolved (length (drains s))) rs')
                     (sendPendingDiagnostics (run e evs s)))
           = requests (run e evs s) @ map (check_request e') ps @
               (case qs of
                  [] \<Rightarrow> []
                | q # _ \<Rightarrow>
                    if getCheckstyleConfigurationPath e' (realUri q) = [] then []
                    else [check_request e' q])"
proof -
  define s' where "s' = run e evs s"
  have exit: "drains s' ! k = Returned \<and> pendingDiagnostics s' = pendingDiagnostics s \<and>
      debounceTimer s' = debounceTimer s \<and>
      collector s' = foldl (reconcile e) (collector s) (zip fs rs) \<and>
      length (drains s') = length (drains s)"
  proof (cases "getCheckstyleConfigurationPath e (realUri g) = []")
    case True
    with assms(7) have "evs = FlushResolved k # map (CheckResolved k) rs" by auto
    with cycle_exit_unconfigured [OF assms(1-6) True] assms(1) show ?thesis
      by (simp add: s'_def)
  next
    case False
    with assms(7) have "evs = FlushResolved k # map (CheckResolved k) (rs @ [NoResult])" by auto
    with cycle_exit_no_result [OF assms(1-6) False] assms(1) show ?thesis
      by (simp add: s'_def)
  qed
  let ?k = "length (drains s)"
  let ?n = "sendPendingDiagnostics s'"
  have n: "?k < length (drains ?n)" "drains ?n ! ?k = AwaitFlush"
    "set_values (pendingDiagnostics ?n) = ps @ qs" "requests ?n = requests s'"
    using exit assms(3,8)
    by (simp_all add: sendPendingDiagnostics_def FileSynchronizer_flush_def nth_append)
  from cycle_requests [OF n(1,2,3) assms(9) assms(10) assms(11)]
  have "requests (run e' (FlushResolved ?k # map (CheckResolved ?k) rs') ?n) =
          requests s' @ map (check_request e') ps @
            (case qs of
               [] \<Rightarrow> []
             | q # _ \<Rightarrow>
                 if getCheckstyleConfigurationPath e' (realUri q) = [] then []
                 else [check_request e' q])"
    by (simp only: n(4))
  with exit show ?thesis by (simp add: s'_def)
qed

text \<open>
  Claim C10, amended, on two files: the results for \<open>/A.java\<close> are stored, the
  check of \<open>/C.java\<close> has no result; both files stay pending, and the next call
  requests \<open>/A.java\<close> again and then \<open>/C.java\<close>.
\<close>

theorem early_exit_keeps_pending_witness:
  "set_values (pendingDiagnostics (run ex_env [DidOpen doc_A, DidOpen doc_C, Advance 200] initial_state))
     = [file_A] @ file_C # []
   \<and> pendingDiagnostics (run ex_env [DidOpen doc_A, DidOpen doc_C, Advance 200,
        FlushResolved 0, CheckResolved 0 (Results [finding_1]), CheckResolved 0 NoResult] initial_state)
     = [Some file_A, Some file_C]
   \<and> collector (run ex_env [DidOpen doc_A, DidOpen doc_C, Advance 200,
        FlushResolved 0, CheckResolved 0 (Results [finding_1]), CheckResolved 0 NoResult] initial_state)
        ''/A.java'' = Some [finding_1]
   \<and> requests (run ex_env [FlushResolved 1, CheckResolved 1 (Results [])]
        (sendPendingDiagnostics (run ex_env [DidOpen doc_A, DidOpen doc_C, Advance 200,
        FlushResolved 0, CheckResolved 0 (Results [finding_1]), CheckResolved 0 NoResult] initial_state)))
     = [check_request ex_env file_A, check_request ex_env file_C,
        check_request ex_env file_A, check_request ex_env file_C]"
  using early_exit_keeps_pending
    [of 0 "run ex_env [DidOpen doc_A, DidOpen doc_C, Advance 200] initial_state"
        "[file_A]" file_C "[]" ex_env "[Results [finding_1]]"
        "[FlushResolved 0, CheckResolved 0 (Results [finding_1]), CheckResolved 0 NoResult]"
        "[file_A]" "[file_C]" ex_env "[Results []]"]
  by (simp add: model_defs ex_defs)

end
